theory Spec2Isabelle
  imports Main "HOL-Library.Word" "HOL-Library.Sublist"
begin

unbundle bit_operations_syntax

section \<open>Strings and character classes\<close>

text \<open>
  A Python \<open>str\<close> is a sequence of Unicode code points, and \<open>len\<close> counts code points.
  The model keeps that: a string is a list of code point numbers (Python only builds
  strings of code points below \<open>0x110000\<close>; the theorems below hold for every list).
\<close>

type_synonym codepoint = nat
type_synonym str = "codepoint list"

text \<open>The character classes of the four regular expressions of \<open>verificar_forca_senha\<close>.
  The patterns are \<open>str\<close> patterns compiled without flags, so a range is a range of code
  points: \<open>[a-z]\<close> is U+0061..U+007A, \<open>[A-Z]\<close> is U+0041..U+005A, \<open>[0-9]\<close> is
  U+0030..U+0039.\<close>

definition minuscula :: "codepoint \<Rightarrow> bool" where
  "minuscula c = (97 \<le> c \<and> c \<le> 122)"

definition maiuscula :: "codepoint \<Rightarrow> bool" where
  "maiuscula c = (65 \<le> c \<and> c \<le> 90)"

definition numero :: "codepoint \<Rightarrow> bool" where
  "numero c = (48 \<le> c \<and> c \<le> 57)"

text \<open>
  \<open>\W\<close> in a \<open>str\<close> pattern is the complement of \<open>\w\<close>, and \<open>\w\<close> is "alphanumeric in the
  interpreter's Unicode database, or the underscore". The database is not part of the
  repository: its alphanumeric predicate on the code points from U+0080 on is the
  parameter \<open>isalnum\<close> of the model. On ASCII the alphanumeric characters are exactly the
  letters and the digits.
\<close>

definition py_isalnum :: "(codepoint \<Rightarrow> bool) \<Rightarrow> codepoint \<Rightarrow> bool" where
  "py_isalnum isalnum c =
     (if c < 128 then minuscula c \<or> maiuscula c \<or> numero c else isalnum c)"

definition re_w :: "(codepoint \<Rightarrow> bool) \<Rightarrow> codepoint \<Rightarrow> bool" where
  "re_w isalnum c = (py_isalnum isalnum c \<or> c = 95)"

definition especial :: "(codepoint \<Rightarrow> bool) \<Rightarrow> codepoint \<Rightarrow> bool" where
  \<comment> \<open>the class \<open>[\W_]\<close>\<close>
  "especial isalnum c = (\<not> re_w isalnum c \<or> c = 95)"

text \<open>\<open>re.search\<close> with a one-character class: the position of the leftmost character of
  the class, \<open>None\<close> when there is none. The source only tests the result for truth.\<close>

fun re_search :: "(codepoint \<Rightarrow> bool) \<Rightarrow> str \<Rightarrow> nat option" where
  "re_search cls [] = None"
| "re_search cls (c # cs) =
     (if cls c then Some 0 else map_option Suc (re_search cls cs))"

section \<open>The strength check\<close>

text \<open>The four levels the function returns (the strings "Muito Fraca", "Fraca",
  "Media" with an acute accent on the e, and "Forte") and its six suggestion messages,
  in the order of their \<open>append\<close> calls in the source (the accents of the messages
  are left out here).\<close>

datatype nivel = Muito_Fraca | Fraca | Media | Forte

datatype sugestao =
    Pelo_Menos_8        \<comment> \<open>"A senha deve ter pelo menos 8 caracteres."\<close>
  | Considere_12        \<comment> \<open>"Considere usar uma senha com 12 ou mais caracteres."\<close>
  | Inclua_Minuscula    \<comment> \<open>"Inclua pelo menos uma letra minuscula (a-z)."\<close>
  | Inclua_Maiuscula    \<comment> \<open>"Inclua pelo menos uma letra maiuscula (A-Z)."\<close>
  | Inclua_Numero       \<comment> \<open>"Inclua pelo menos um numero (0-9)."\<close>
  | Inclua_Especial     \<comment> \<open>"Inclua pelo menos um caractere especial (ex: !@#$)."\<close>

text \<open>The two local variables \<open>pontuacao\<close> and \<open>sugestoes\<close>, threaded through the
  checks.\<close>

type_synonym estado = "int \<times> sugestao list"

definition verificar_comprimento :: "str \<Rightarrow> estado \<Rightarrow> estado" where
  "verificar_comprimento senha st =
     (case st of (pontuacao, sugestoes) \<Rightarrow>
        if length senha < 8 then (pontuacao - 5, sugestoes @ [Pelo_Menos_8])
        else if length senha < 12 then (pontuacao + 1, sugestoes @ [Considere_12])
        else (pontuacao + 3, sugestoes))"

definition verificar_classe ::
  "(codepoint \<Rightarrow> bool) \<Rightarrow> int \<Rightarrow> sugestao \<Rightarrow> str \<Rightarrow> estado \<Rightarrow> estado" where
  "verificar_classe cls pontos msg senha st =
     (case st of (pontuacao, sugestoes) \<Rightarrow>
        if re_search cls senha \<noteq> None then (pontuacao + pontos, sugestoes)
        else (pontuacao, sugestoes @ [msg]))"

text \<open>The state after the last character check (line 58 of the source).\<close>

definition pontuar :: "(codepoint \<Rightarrow> bool) \<Rightarrow> str \<Rightarrow> estado" where
  "pontuar isalnum senha =
     verificar_classe (especial isalnum) 2 Inclua_Especial senha
       (verificar_classe numero 1 Inclua_Numero senha
         (verificar_classe maiuscula 1 Inclua_Maiuscula senha
           (verificar_classe minuscula 1 Inclua_Minuscula senha
             (verificar_comprimento senha (0, [])))))"

definition calcular_nivel :: "int \<Rightarrow> nivel" where
  "calcular_nivel pontuacao =
     (if pontuacao < 2 then Muito_Fraca
      else if pontuacao < 4 then Fraca
      else if pontuacao < 6 then Media
      else Forte)"

definition verificar_forca_senha :: "(codepoint \<Rightarrow> bool) \<Rightarrow> str \<Rightarrow> nivel \<times> sugestao list" where
  "verificar_forca_senha isalnum senha =
     (case pontuar isalnum senha of (pontuacao, sugestoes) \<Rightarrow>
        (calcular_nivel pontuacao, sugestoes))"

section \<open>The library functions the leak check calls\<close>

subsection \<open>Exceptions\<close>

text \<open>The exceptions that can reach the \<open>try\<close> block of \<open>verificar_vazamento_pwned\<close>.
  \<open>RequestException\<close> stands for \<open>requests.RequestException\<close> and all its subclasses
  (connection errors, timeouts, ...), which one \<open>except\<close> clause catches alike.\<close>

datatype excecao = UnicodeEncodeError | ValueError | RequestException

type_synonym u8 = "8 word"
type_synonym u32 = "32 word"

subsection \<open>\<open>str.encode('utf-8')\<close>\<close>

text \<open>The strict UTF-8 codec: one to four bytes for a code point, and
  \<open>UnicodeEncodeError\<close> at the first surrogate (U+D800..U+DFFF), which a Python \<open>str\<close>
  may hold and UTF-8 cannot encode.\<close>

definition surrogate :: "codepoint \<Rightarrow> bool" where
  "surrogate c = (55296 \<le> c \<and> c \<le> 57343)"

definition utf8_bytes :: "codepoint \<Rightarrow> u8 list" where
  "utf8_bytes c =
     (if c < 128 then [of_nat c]
      else if c < 2048 then [of_nat (192 + c div 64), of_nat (128 + c mod 64)]
      else if c < 65536 then
        [of_nat (224 + c div 4096), of_nat (128 + c div 64 mod 64), of_nat (128 + c mod 64)]
      else
        [of_nat (240 + c div 262144), of_nat (128 + c div 4096 mod 64),
         of_nat (128 + c div 64 mod 64), of_nat (128 + c mod 64)])"

fun encode_utf8 :: "str \<Rightarrow> excecao + u8 list" where
  "encode_utf8 [] = Inr []"
| "encode_utf8 (c # cs) =
     (if surrogate c then Inl UnicodeEncodeError
      else case encode_utf8 cs of
             Inl e \<Rightarrow> Inl e
           | Inr bs \<Rightarrow> Inr (utf8_bytes c @ bs))"

subsection \<open>\<open>hashlib.sha1\<close>\<close>

text \<open>
  \<open>hashlib\<close> belongs to the interpreter, not to the repository. The digest is the
  Secure Hash Algorithm SHA-1 of FIPS 180-4 on 32-bit words: the message is padded with
  the byte \<open>0x80\<close>, zero bytes and its length in bits as a 64-bit big-endian number to a
  multiple of 64 bytes; each 64-byte block is expanded to 80 words and run through 80
  rounds.
\<close>

definition rotl :: "nat \<Rightarrow> u32 \<Rightarrow> u32" where
  "rotl n x = push_bit n x OR drop_bit (32 - n) x"

definition sha1_f :: "nat \<Rightarrow> u32 \<Rightarrow> u32 \<Rightarrow> u32 \<Rightarrow> u32" where
  "sha1_f t b c d =
     (if t < 20 then (b AND c) OR (NOT b AND d)
      else if t < 40 then b XOR c XOR d
      else if t < 60 then (b AND c) OR (b AND d) OR (c AND d)
      else b XOR c XOR d)"

definition sha1_k :: "nat \<Rightarrow> u32" where
  "sha1_k t =
     (if t < 20 then 0x5A827999
      else if t < 40 then 0x6ED9EBA1
      else if t < 60 then 0x8F1BBCDC
      else 0xCA62C1D6)"

text \<open>Big-endian words of a block.\<close>

fun palavras :: "u8 list \<Rightarrow> u32 list" where
  "palavras (b0 # b1 # b2 # b3 # bs) =
     (push_bit 24 (ucast b0) OR push_bit 16 (ucast b1) OR push_bit 8 (ucast b2) OR ucast b3)
       # palavras bs"
| "palavras bs = []"

text \<open>The message schedule: \<open>n\<close> more words, each from the words 3, 8, 14 and 16
  places back. It is only run on the 16 words of a block.\<close>

fun expandir :: "nat \<Rightarrow> u32 list \<Rightarrow> u32 list" where
  "expandir 0 w = w"
| "expandir (Suc n) w =
     expandir n (w @ [rotl 1 (w ! (length w - 3) XOR w ! (length w - 8)
                              XOR w ! (length w - 14) XOR w ! (length w - 16))])"

type_synonym sha1_estado = "u32 \<times> u32 \<times> u32 \<times> u32 \<times> u32"

fun rodadas :: "nat \<Rightarrow> u32 list \<Rightarrow> sha1_estado \<Rightarrow> sha1_estado" where
  "rodadas t [] st = st"
| "rodadas t (wt # ws) (a, b, c, d, e) =
     rodadas (Suc t) ws
       (rotl 5 a + sha1_f t b c d + e + sha1_k t + wt, a, rotl 30 b, c, d)"

definition comprimir :: "sha1_estado \<Rightarrow> u8 list \<Rightarrow> sha1_estado" where
  "comprimir h bloco =
     (case h of (h0, h1, h2, h3, h4) \<Rightarrow>
        case rodadas 0 (expandir 64 (palavras bloco)) h of (a, b, c, d, e) \<Rightarrow>
          (h0 + a, h1 + b, h2 + c, h3 + d, h4 + e))"

fun blocos :: "nat \<Rightarrow> sha1_estado \<Rightarrow> u8 list \<Rightarrow> sha1_estado" where
  "blocos 0 h bs = h"
| "blocos (Suc n) h bs = blocos n (comprimir h (take 64 bs)) (drop 64 bs)"

definition preencher :: "u8 list \<Rightarrow> u8 list" where
  "preencher m =
     m @ [0x80] @ replicate ((119 - length m mod 64) mod 64) 0
       @ map (\<lambda>i. ucast (drop_bit (8 * i) (word_of_nat (8 * length m) :: 64 word)))
           [7, 6, 5, 4, 3, 2, 1, 0]"

definition bytes_de :: "u32 \<Rightarrow> u8 list" where
  "bytes_de w = [ucast (drop_bit 24 w), ucast (drop_bit 16 w), ucast (drop_bit 8 w), ucast w]"

definition sha1 :: "u8 list \<Rightarrow> u8 list" where
  "sha1 m =
     (case blocos (length (preencher m) div 64)
             (0x67452301, 0xEFCDAB89, 0x98BADCFE, 0x10325476, 0xC3D2E1F0) (preencher m) of
        (h0, h1, h2, h3, h4) \<Rightarrow>
          bytes_de h0 @ bytes_de h1 @ bytes_de h2 @ bytes_de h3 @ bytes_de h4)"

text \<open>\<open>hexdigest()\<close>: two lowercase hexadecimal digits for each byte of the digest.\<close>

definition hex_digito :: "nat \<Rightarrow> codepoint" where
  "hex_digito n = (if n < 10 then 48 + n else 87 + n)"

definition hexdigest :: "u8 list \<Rightarrow> str" where
  "hexdigest bs = concat (map (\<lambda>b. [hex_digito (unat b div 16), hex_digito (unat b mod 16)]) bs)"

text \<open>\<open>str.upper()\<close> as it acts on an ASCII string (the source applies it to a
  \<open>hexdigest()\<close> only): \<open>a\<close>..\<open>z\<close> go to \<open>A\<close>..\<open>Z\<close>, every other ASCII character stays.\<close>

definition upper :: "str \<Rightarrow> str" where
  "upper s = map (\<lambda>c. if minuscula c then c - 32 else c) s"

subsection \<open>\<open>str.splitlines\<close> and \<open>str.split\<close>\<close>

text \<open>The line boundaries of \<open>str.splitlines\<close>: line feed, vertical tab, form feed,
  carriage return, the separators U+001C..U+001E, next line U+0085, and the line and
  paragraph separators U+2028 and U+2029. A carriage return followed by a line feed is
  one boundary, and no empty line follows the last boundary.\<close>

definition quebra_de_linha :: "codepoint \<Rightarrow> bool" where
  "quebra_de_linha c =
     ((10 \<le> c \<and> c \<le> 13) \<or> (28 \<le> c \<and> c \<le> 30) \<or> c = 133 \<or> c = 8232 \<or> c = 8233)"

fun splitlines :: "str \<Rightarrow> str list" where
  "splitlines [] = []"
| "splitlines [c] = (if quebra_de_linha c then [[]] else [[c]])"
| "splitlines (c # d # cs) =
     (if c = 13 \<and> d = 10 then [] # splitlines cs
      else if quebra_de_linha c then [] # splitlines (d # cs)
      else (case splitlines (d # cs) of
              [] \<Rightarrow> [[c]]
            | l # ls \<Rightarrow> (c # l) # ls))"

text \<open>\<open>s.split(sep)\<close> for a one-character separator: the pieces between the
  separators, always at least one.\<close>

fun split :: "codepoint \<Rightarrow> str \<Rightarrow> str list" where
  "split sep [] = [[]]"
| "split sep (c # cs) =
     (if c = sep then [] # split sep cs
      else (case split sep cs of
              [] \<Rightarrow> [[c]]
            | p # ps \<Rightarrow> (c # p) # ps))"

subsection \<open>\<open>int\<close> of a string\<close>

text \<open>
  \<open>int(s)\<close> in base 10 on an ASCII string: white space is stripped from both ends, one
  sign may come first, and the rest must be decimal digits, where single underscores
  may stand between two digits; anything else raises \<open>ValueError\<close>. CPython also raises
  \<open>ValueError\<close> when there are more digits than \<open>sys.get_int_max_str_digits()\<close> (4300
  unless reconfigured; 0 switches the limit off, and interpreters before the limit was
  introduced behave like 0). On a string with a character beyond ASCII the conversion
  consults the Unicode database; both that part and the limit are parameters of the
  model.
\<close>

record interpretador =
  int_unicode :: "str \<Rightarrow> excecao + int"
  max_str_digits :: nat

definition espaco :: "codepoint \<Rightarrow> bool" where
  "espaco c = (c = 32 \<or> (9 \<le> c \<and> c \<le> 13))"

definition strip :: "str \<Rightarrow> str" where
  "strip s = rev (dropWhile espaco (rev (dropWhile espaco s)))"

fun digitos :: "str \<Rightarrow> nat list option" where
  "digitos [] = None"
| "digitos [c] = (if numero c then Some [c - 48] else None)"
| "digitos (c # d # cs) =
     (if \<not> numero c then None
      else if d = 95 then map_option ((#) (c - 48)) (digitos cs)
      else map_option ((#) (c - 48)) (digitos (d # cs)))"

definition valor :: "nat list \<Rightarrow> nat" where
  "valor ds = foldl (\<lambda>a d. 10 * a + d) 0 ds"

definition int_ascii :: "nat \<Rightarrow> str \<Rightarrow> excecao + int" where
  "int_ascii limite s =
     (case (case strip s of
              [] \<Rightarrow> (False, [])
            | c # cs \<Rightarrow> if c = 45 then (True, cs) else if c = 43 then (False, cs)
                        else (False, c # cs)) of
        (negativo, resto) \<Rightarrow>
          (case digitos resto of
             None \<Rightarrow> Inl ValueError
           | Some ds \<Rightarrow>
               if 0 < limite \<and> limite < length ds then Inl ValueError
               else Inr (if negativo then - int (valor ds) else int (valor ds))))"

definition py_int :: "interpretador \<Rightarrow> str \<Rightarrow> excecao + int" where
  "py_int ip s =
     (if list_all (\<lambda>c. c < 128) s then int_ascii (max_str_digits ip) s
      else int_unicode ip s)"

section \<open>The leak check\<close>

text \<open>
  \<open>requests.get(url)\<close> is the one contact with the outside: it either returns a response,
  of which the source reads \<open>status_code\<close> and \<open>text\<close>, or raises. The network is a
  parameter of the model, a function from the URL requested to what the call does.
  The two warnings the function prints are the log it returns beside its result.
\<close>

record resposta =
  status_code :: int
  text_str :: str   \<comment> \<open>the attribute \<open>text\<close>\<close>

datatype aviso =
    Aviso_API int     \<comment> \<open>"[AVISO] Erro ao verificar vazamentos (API retornou ...)."\<close>
  | Aviso_Conexao     \<comment> \<open>"[AVISO] Erro de conexao ao verificar vazamentos: ..."\<close>

definition url_range :: str where
  "url_range = map of_char ''https://api.pwnedpasswords.com/range/''"

definition sha1_senha :: "u8 list \<Rightarrow> str" where
  "sha1_senha bs = upper (hexdigest (sha1 bs))"

definition prefixo_hash :: "str \<Rightarrow> str" where
  "prefixo_hash h = take 5 h"

definition sufixo_hash :: "str \<Rightarrow> str" where
  "sufixo_hash h = drop 5 h"

text \<open>The \<open>for\<close> loop over the lazily split lines (lines 95 to 100): each line is split
  at its colons only when the loop reaches it; unpacking into \<open>hash_vazado, contagem\<close>
  raises \<open>ValueError\<close> unless there are exactly two pieces; the first line whose first
  piece is the suffix ends the loop with \<open>True\<close> and the \<open>int\<close> of its second piece.
  \<open>None\<close> is the loop running to its end.\<close>

fun procurar :: "interpretador \<Rightarrow> str \<Rightarrow> str list \<Rightarrow> excecao + (bool \<times> int) option" where
  "procurar ip sufixo [] = Inr None"
| "procurar ip sufixo (linha # linhas) =
     (case split 58 linha of
        [hash_vazado, contagem] \<Rightarrow>
          if hash_vazado = sufixo then
            (case py_int ip contagem of
               Inl e \<Rightarrow> Inl e
             | Inr n \<Rightarrow> Inr (Some (True, n)))
          else procurar ip sufixo linhas
      | _ \<Rightarrow> Inl ValueError)"

text \<open>The body of the \<open>try\<close> statement (lines 81 to 100): an exception, or the value
  of a \<open>return\<close> inside it (\<open>None\<close> when the loop ends without one) and what was printed.\<close>

definition corpo_try ::
  "interpretador \<Rightarrow> (str \<Rightarrow> excecao + resposta) \<Rightarrow> str
     \<Rightarrow> excecao + (bool \<times> int) option \<times> aviso list" where
  "corpo_try ip requests_get senha =
     (case encode_utf8 senha of
        Inl e \<Rightarrow> Inl e
      | Inr bs \<Rightarrow>
          (case requests_get (url_range @ prefixo_hash (sha1_senha bs)) of
             Inl e \<Rightarrow> Inl e
           | Inr r \<Rightarrow>
               if status_code r \<noteq> 200 then
                 Inr (Some (False, 0), [Aviso_API (status_code r)])
               else
                 (case procurar ip (sufixo_hash (sha1_senha bs)) (splitlines (text_str r)) of
                    Inl e \<Rightarrow> Inl e
                  | Inr achado \<Rightarrow> Inr (achado, []))))"

text \<open>The whole function: the \<open>except\<close> clause catches \<open>requests.RequestException\<close> and
  nothing else, so any other exception leaves the function; line 107 returns
  \<open>(False, 0)\<close> when the loop found nothing.\<close>

definition verificar_vazamento_pwned ::
  "interpretador \<Rightarrow> (str \<Rightarrow> excecao + resposta) \<Rightarrow> str
     \<Rightarrow> (excecao + bool \<times> int) \<times> aviso list" where
  "verificar_vazamento_pwned ip requests_get senha =
     (case corpo_try ip requests_get senha of
        Inl RequestException \<Rightarrow> (Inr (False, 0), [Aviso_Conexao])
      | Inl e \<Rightarrow> (Inl e, [])
      | Inr (Some resultado, avisos) \<Rightarrow> (Inr resultado, avisos)
      | Inr (None, avisos) \<Rightarrow> (Inr (False, 0), avisos))"

section \<open>What the specification says, in its own words\<close>

subsection \<open>The score\<close>

definition contem :: "(codepoint \<Rightarrow> bool) \<Rightarrow> str \<Rightarrow> bool" where
  "contem cls senha = (\<exists>c \<in> set senha. cls c)"

text \<open>The specification's point table, for any reading of its four character classes
  "lowercase letter", "uppercase letter", "digit" and "non-alphanumeric character",
  and its level thresholds.\<close>

definition pontos_declarados ::
  "(codepoint \<Rightarrow> bool) \<Rightarrow> (codepoint \<Rightarrow> bool) \<Rightarrow> (codepoint \<Rightarrow> bool)
     \<Rightarrow> (codepoint \<Rightarrow> bool) \<Rightarrow> str \<Rightarrow> int" where
  "pontos_declarados letra_min letra_mai algarismo nao_alnum senha =
     (if length senha < 8 then - 5 else if length senha < 12 then 1 else 3)
     + (if contem letra_min senha then 1 else 0)
     + (if contem letra_mai senha then 1 else 0)
     + (if contem algarismo senha then 1 else 0)
     + (if contem nao_alnum senha then 2 else 0)"

definition nivel_declarado :: "int \<Rightarrow> nivel" where
  "nivel_declarado pontos =
     (if pontos < 2 then Muito_Fraca else if pontos < 4 then Fraca
      else if pontos < 6 then Media else Forte)"

text \<open>"Not alphanumeric" as the interpreter has it: neither a letter nor a number of any
  script. The underscore is not alphanumeric; an accented or a fullwidth letter is.\<close>

definition nao_alfanumerico :: "(codepoint \<Rightarrow> bool) \<Rightarrow> codepoint \<Rightarrow> bool" where
  "nao_alfanumerico isalnum c = (\<not> py_isalnum isalnum c)"

text \<open>
  The classes as the words of the specification read for text in general: a lowercase
  letter, an uppercase letter and a digit of any script, as the Unicode database
  classifies the code points beyond ASCII. \<open>fullwidth\<close> holds the rows of the database for
  the fullwidth forms U+FF01..U+FF5E, the variants of the ASCII characters that an East
  Asian input method types: U+FF10..U+FF19 are decimal digits, U+FF21..U+FF3A uppercase
  letters, U+FF41..U+FF5A lowercase letters, the others punctuation and symbols. The
  code points outside the block are left unclassified in it; the statements that use
  it look at no other.
\<close>

record ucd =
  ucd_isalnum :: "codepoint \<Rightarrow> bool"
  ucd_islower :: "codepoint \<Rightarrow> bool"
  ucd_isupper :: "codepoint \<Rightarrow> bool"
  ucd_isdigit :: "codepoint \<Rightarrow> bool"

definition fullwidth :: ucd where
  "fullwidth =
     \<lparr>ucd_isalnum = (\<lambda>c. (65296 \<le> c \<and> c \<le> 65305) \<or> (65313 \<le> c \<and> c \<le> 65338)
                           \<or> (65345 \<le> c \<and> c \<le> 65370)),
      ucd_islower = (\<lambda>c. 65345 \<le> c \<and> c \<le> 65370),
      ucd_isupper = (\<lambda>c. 65313 \<le> c \<and> c \<le> 65338),
      ucd_isdigit = (\<lambda>c. 65296 \<le> c \<and> c \<le> 65305)\<rparr>"

definition letra_minuscula :: "ucd \<Rightarrow> codepoint \<Rightarrow> bool" where
  "letra_minuscula u c = (if c < 128 then minuscula c else ucd_islower u c)"

definition letra_maiuscula :: "ucd \<Rightarrow> codepoint \<Rightarrow> bool" where
  "letra_maiuscula u c = (if c < 128 then maiuscula c else ucd_isupper u c)"

definition digito :: "ucd \<Rightarrow> codepoint \<Rightarrow> bool" where
  "digito u c = (if c < 128 then numero c else ucd_isdigit u c)"

text \<open>The password "password"; the same word typed in fullwidth lowercase letters
  (U+FF50 U+FF41 U+FF53 U+FF53 U+FF57 U+FF4F U+FF52 U+FF44); and "Password123!" typed
  in fullwidth forms.\<close>

definition senha_password :: str where
  "senha_password = map of_char ''password''"

definition senha_fullwidth :: str where
  "senha_fullwidth = map (\<lambda>c. of_char c + 65248) ''password''"

definition senha_fullwidth_mista :: str where
  "senha_fullwidth_mista = map (\<lambda>c. of_char c + 65248) ''Password123!''"

subsection \<open>The suggestions\<close>

text \<open>The fixed order of the checks, and which message each password is due.\<close>

definition todas_sugestoes :: "sugestao list" where
  "todas_sugestoes =
     [Pelo_Menos_8, Considere_12, Inclua_Minuscula, Inclua_Maiuscula, Inclua_Numero,
      Inclua_Especial]"

fun pendente :: "(codepoint \<Rightarrow> bool) \<Rightarrow> str \<Rightarrow> sugestao \<Rightarrow> bool" where
  "pendente isalnum senha Pelo_Menos_8 = (length senha < 8)"
| "pendente isalnum senha Considere_12 = (8 \<le> length senha \<and> length senha < 12)"
| "pendente isalnum senha Inclua_Minuscula = (\<not> contem minuscula senha)"
| "pendente isalnum senha Inclua_Maiuscula = (\<not> contem maiuscula senha)"
| "pendente isalnum senha Inclua_Numero = (\<not> contem numero senha)"
| "pendente isalnum senha Inclua_Especial = (\<not> contem (nao_alfanumerico isalnum) senha)"

subsection \<open>The leak check\<close>

text \<open>The characters of an uppercase hexadecimal digest.\<close>

definition hex_maiusculo :: "codepoint \<Rightarrow> bool" where
  "hex_maiusculo c = (numero c \<or> (65 \<le> c \<and> c \<le> 70))"

text \<open>
  A response body of newline-separated \<open>SUFFIX:COUNT\<close> pairs: the lines are joined by
  a line feed or by a carriage return and a line feed (what the service sends), a line
  is a suffix, a colon and a count; the suffix has no colon and no line boundary in it,
  the count is a non-empty string of the digits \<open>0\<close>..\<open>9\<close>, within the interpreter's
  limit on the digits of a number where it has one. The specification's result: the
  count of the first pair with the suffix looked for, as a decimal number.
\<close>

fun juntar :: "str \<Rightarrow> str list \<Rightarrow> str" where
  "juntar sep [] = []"
| "juntar sep [l] = l"
| "juntar sep (l # m # ls) = l @ sep @ juntar sep (m # ls)"

definition linha_par :: "str \<times> str \<Rightarrow> str" where
  "linha_par p = fst p @ [58] @ snd p"

definition decimal :: "str \<Rightarrow> bool" where
  "decimal s = (s \<noteq> [] \<and> list_all numero s)"

definition valor_decimal :: "str \<Rightarrow> int" where
  "valor_decimal s = int (foldl (\<lambda>a c. 10 * a + (c - 48)) 0 s)"

definition par_bem_formado :: "nat \<Rightarrow> str \<times> str \<Rightarrow> bool" where
  "par_bem_formado limite p =
     (list_all (\<lambda>c. c \<noteq> 58 \<and> \<not> quebra_de_linha c) (fst p)
      \<and> decimal (snd p) \<and> (limite = 0 \<or> length (snd p) \<le> limite))"

definition resultado_declarado :: "str \<Rightarrow> (str \<times> str) list \<Rightarrow> bool \<times> int" where
  "resultado_declarado sufixo pares =
     (case find (\<lambda>p. fst p = sufixo) pares of
        None \<Rightarrow> (False, 0)
      | Some p \<Rightarrow> (True, valor_decimal (snd p)))"

text \<open>
  Concrete surroundings for the examples: an interpreter with CPython's default limit
  of 4300 digits (its conversion of non-ASCII strings is left raising; no example
  converts one), a network that answers every request with a given status and body,
  the UTF-8 bytes of "password", and two bodies of three pairs, one with the suffix of
  the digest of "password" and the count 3730471, one without it.
\<close>

definition interpretador_padrao :: interpretador where
  "interpretador_padrao = \<lparr>int_unicode = (\<lambda>s. Inl ValueError), max_str_digits = 4300\<rparr>"

definition rede_responde :: "int \<Rightarrow> str \<Rightarrow> str \<Rightarrow> excecao + resposta" where
  "rede_responde status corpo url = Inr \<lparr>status_code = status, text_str = corpo\<rparr>"

definition bytes_password :: "u8 list" where
  "bytes_password = [112, 97, 115, 115, 119, 111, 114, 100]"

definition pares_com_password :: "(str \<times> str) list" where
  "pares_com_password =
     [(map of_char ''0018A45C4D1DEF81644B54AB7F969B88D65'', map of_char ''10''),
      (map of_char ''1E4C9B93F3F0682250B6CF8331B7EE68FD8'', map of_char ''3730471''),
      (map of_char ''1E4D2B0A0F9FC4C3F5D3B0B3D5E2A1C9F77'', map of_char ''2'')]"

definition pares_sem_password :: "(str \<times> str) list" where
  "pares_sem_password =
     [(map of_char ''0018A45C4D1DEF81644B54AB7F969B88D65'', map of_char ''10''),
      (map of_char ''1E4D2B0A0F9FC4C3F5D3B0B3D5E2A1C9F77'', map of_char ''2'')]"

section \<open>The strength check: proofs\<close>

lemma re_search_None: "(re_search cls senha = None) = (\<not> contem cls senha)"
  by (induction senha) (auto simp: contem_def)

lemma contem_Cons: "contem cls (c # cs) = (cls c \<or> contem cls cs)"
  by (simp add: contem_def)

lemma contem_Nil: "contem cls [] = False"
  by (simp add: contem_def)

text \<open>The class \<open>[\W_]\<close> is the complement of the alphanumeric characters: the
  underscore, which \<open>\W\<close> leaves out, is added back by the class itself.\<close>

lemma especial_iff: "especial isalnum c = nao_alfanumerico isalnum c"
  by (auto simp: especial_def re_w_def nao_alfanumerico_def py_isalnum_def minuscula_def
        maiuscula_def numero_def)

lemma contem_especial:
  "contem (especial isalnum) senha = contem (nao_alfanumerico isalnum) senha"
  by (simp add: contem_def especial_iff)

lemma verificar_classe_eq:
  "verificar_classe cls pontos msg senha st =
     (fst st + (if contem cls senha then pontos else 0),
      snd st @ (if contem cls senha then [] else [msg]))"
  by (cases st) (simp add: verificar_classe_def re_search_None)

lemma verificar_comprimento_eq:
  "verificar_comprimento senha st =
     (fst st + (if length senha < 8 then - 5 else if length senha < 12 then 1 else 3),
      snd st @ (if length senha < 8 then [Pelo_Menos_8]
                else if length senha < 12 then [Considere_12] else []))"
  by (cases st) (simp add: verificar_comprimento_def)

lemma fst_pontuar:
  "fst (pontuar isalnum senha) =
     pontos_declarados minuscula maiuscula numero (nao_alfanumerico isalnum) senha"
  by (simp add: pontuar_def verificar_classe_eq verificar_comprimento_eq
        contem_especial pontos_declarados_def)

lemma snd_pontuar:
  "snd (pontuar isalnum senha) =
     (if length senha < 8 then [Pelo_Menos_8]
      else if length senha < 12 then [Considere_12] else [])
     @ (if contem minuscula senha then [] else [Inclua_Minuscula])
     @ (if contem maiuscula senha then [] else [Inclua_Maiuscula])
     @ (if contem numero senha then [] else [Inclua_Numero])
     @ (if contem (nao_alfanumerico isalnum) senha then [] else [Inclua_Especial])"
  by (simp add: pontuar_def verificar_classe_eq verificar_comprimento_eq contem_especial)

lemma fst_verificar:
  "fst (verificar_forca_senha isalnum senha) = calcular_nivel (fst (pontuar isalnum senha))"
  by (simp add: verificar_forca_senha_def split: prod.splits)

lemma snd_verificar:
  "snd (verificar_forca_senha isalnum senha) = snd (pontuar isalnum senha)"
  by (simp add: verificar_forca_senha_def split: prod.splits)

lemmas classes_defs =
  nao_alfanumerico_def py_isalnum_def minuscula_def maiuscula_def numero_def

lemmas avaliar_pontos =
  pontos_declarados_def contem_Cons contem_Nil classes_defs calcular_nivel_def
  nivel_declarado_def

lemma senha_password_eq: "senha_password = [112, 97, 115, 115, 119, 111, 114, 100]"
  by (simp add: senha_password_def)

lemma senha_fullwidth_eq:
  "senha_fullwidth = [65360, 65345, 65363, 65363, 65367, 65359, 65362, 65348]"
  by (simp add: senha_fullwidth_def)

lemma senha_fullwidth_mista_eq:
  "senha_fullwidth_mista =
     [65328, 65345, 65363, 65363, 65367, 65359, 65362, 65348, 65297, 65298, 65299, 65281]"
  by (simp add: senha_fullwidth_mista_def)

subsection \<open>The point table\<close>

text \<open>
  C1, as the specification words it: a lowercase letter is worth a point. It fails on a
  password of lowercase letters that are not the 26 ASCII ones. For "password" typed in
  fullwidth letters the code finds no character of \<open>[a-z]\<close> and none of \<open>[\W_]\<close>, since
  the letters are alphanumeric: the total is 1 and the level "Muito Fraca", where the
  specification's table gives 2 points and the level "Fraca".
\<close>

theorem pontuacao_letras_fullwidth_counterexample:
  "fst (pontuar (ucd_isalnum fullwidth) senha_fullwidth) = 1
   \<and> fst (verificar_forca_senha (ucd_isalnum fullwidth) senha_fullwidth) = Muito_Fraca
   \<and> pontos_declarados (letra_minuscula fullwidth) (letra_maiuscula fullwidth)
        (digito fullwidth) (nao_alfanumerico (ucd_isalnum fullwidth)) senha_fullwidth = 2
   \<and> nivel_declarado
        (pontos_declarados (letra_minuscula fullwidth) (letra_maiuscula fullwidth)
           (digito fullwidth) (nao_alfanumerico (ucd_isalnum fullwidth)) senha_fullwidth)
       = Fraca"
  by (simp add: fst_verificar fst_pontuar senha_fullwidth_eq avaliar_pontos
        letra_minuscula_def letra_maiuscula_def digito_def fullwidth_def)

text \<open>
  C1, amended: for every password the total is the specification's table with the
  classes read as the code has them: a lowercase letter is one of \<open>a\<close>..\<open>z\<close>, an uppercase
  letter one of \<open>A\<close>..\<open>Z\<close>, a digit one of \<open>0\<close>..\<open>9\<close>, and a non-alphanumeric character
  is one that is neither a letter nor a number of any script; the level follows the
  thresholds 2, 4 and 6.
\<close>

theorem pontuacao_por_classes:
  "fst (pontuar isalnum senha) =
     pontos_declarados minuscula maiuscula numero (nao_alfanumerico isalnum) senha
   \<and> fst (verificar_forca_senha isalnum senha) =
       nivel_declarado
         (pontos_declarados minuscula maiuscula numero (nao_alfanumerico isalnum) senha)"
  by (simp add: fst_pontuar fst_verificar calcular_nivel_def nivel_declarado_def)

theorem pontuacao_por_classes_witness:
  "fst (pontuar (ucd_isalnum fullwidth) (map of_char ''Senha_2024'')) = 6
   \<and> fst (verificar_forca_senha (ucd_isalnum fullwidth) (map of_char ''Senha_2024'')) = Forte"
  using pontuacao_por_classes [of "ucd_isalnum fullwidth" "map of_char ''Senha_2024''"]
  by (simp add: avaliar_pontos)

subsection \<open>The password "password"\<close>

text \<open>
  C4, as stated: "password" gets exactly three suggestions. It gets four: a password of
  8 to 11 characters is also advised to use 12 or more.
\<close>

theorem senha_password_tres_sugestoes_counterexample:
  "length (snd (verificar_forca_senha (ucd_isalnum fullwidth) senha_password)) \<noteq> 3"
  by (simp add: snd_verificar snd_pontuar senha_password_eq contem_Cons contem_Nil
        classes_defs)

text \<open>
  C4, amended: for "password" the total is 2, the level is "Fraca", and there are
  exactly four suggestions: 12 or more characters, an uppercase letter, a digit and a
  special character, in this order.
\<close>

theorem senha_password_fraca:
  "fst (pontuar isalnum senha_password) = 2
   \<and> verificar_forca_senha isalnum senha_password =
       (Fraca, [Considere_12, Inclua_Maiuscula, Inclua_Numero, Inclua_Especial])"
  by (simp add: prod_eq_iff fst_verificar snd_verificar fst_pontuar snd_pontuar
        senha_password_eq avaliar_pontos)

theorem senha_password_fraca_witness:
  "fst (pontuar (ucd_isalnum fullwidth) senha_password) = 2
   \<and> fst (verificar_forca_senha (ucd_isalnum fullwidth) senha_password) = Fraca
   \<and> length (snd (verificar_forca_senha (ucd_isalnum fullwidth) senha_password)) = 4"
  using senha_password_fraca [of "ucd_isalnum fullwidth"] by simp

subsection \<open>Long passwords with all four classes\<close>

text \<open>
  C6, as the specification words it, fails on "Password123!" typed in fullwidth forms:
  twelve characters with a lowercase letter, an uppercase letter, a digit and a
  character that is not alphanumeric. The code finds no character of \<open>[a-z]\<close>, \<open>[A-Z]\<close>
  or \<open>[0-9]\<close>; the total is 3 + 2 = 5 and the level "Media".
\<close>

theorem senha_fullwidth_completa_counterexample:
  "12 \<le> length senha_fullwidth_mista
   \<and> contem (letra_minuscula fullwidth) senha_fullwidth_mista
   \<and> contem (letra_maiuscula fullwidth) senha_fullwidth_mista
   \<and> contem (digito fullwidth) senha_fullwidth_mista
   \<and> contem (nao_alfanumerico (ucd_isalnum fullwidth)) senha_fullwidth_mista
   \<and> fst (pontuar (ucd_isalnum fullwidth) senha_fullwidth_mista) = 5
   \<and> fst (verificar_forca_senha (ucd_isalnum fullwidth) senha_fullwidth_mista) = Media"
  by (simp add: fst_verificar fst_pontuar senha_fullwidth_mista_eq avaliar_pontos
        letra_minuscula_def letra_maiuscula_def digito_def fullwidth_def)

text \<open>
  C6, amended: every password of at least 12 characters with one of \<open>a\<close>..\<open>z\<close>, one of
  \<open>A\<close>..\<open>Z\<close>, one of \<open>0\<close>..\<open>9\<close> and one character that is neither a letter nor a number of
  any script has a total of at least 8 and the level "Forte".
\<close>

theorem senha_completa_forte:
  assumes "12 \<le> length senha"
    and "contem minuscula senha" and "contem maiuscula senha" and "contem numero senha"
    and "contem (nao_alfanumerico isalnum) senha"
  shows "8 \<le> fst (pontuar isalnum senha)
         \<and> fst (verificar_forca_senha isalnum senha) = Forte"
  using assms by (simp add: fst_verificar fst_pontuar pontos_declarados_def calcular_nivel_def)

theorem senha_completa_forte_witness:
  "12 \<le> length (map of_char ''Password123!'' :: str)
   \<and> contem minuscula (map of_char ''Password123!'')
   \<and> contem maiuscula (map of_char ''Password123!'')
   \<and> contem numero (map of_char ''Password123!'')
   \<and> contem (nao_alfanumerico (ucd_isalnum fullwidth)) (map of_char ''Password123!'')
   \<and> 8 \<le> fst (pontuar (ucd_isalnum fullwidth) (map of_char ''Password123!''))
   \<and> fst (verificar_forca_senha (ucd_isalnum fullwidth) (map of_char ''Password123!''))
       = Forte"
proof -
  have h: "12 \<le> length (map of_char ''Password123!'' :: str)"
    "contem minuscula (map of_char ''Password123!'')"
    "contem maiuscula (map of_char ''Password123!'')"
    "contem numero (map of_char ''Password123!'')"
    "contem (nao_alfanumerico (ucd_isalnum fullwidth)) (map of_char ''Password123!'')"
    by (simp_all add: contem_Cons contem_Nil classes_defs)
  from senha_completa_forte [OF h] h show ?thesis by simp
qed

subsection \<open>The order of the suggestions\<close>

text \<open>
  C8: for every password the suggestions are the messages due, in the fixed order of
  the checks: the length message first (at most one of the two), then lowercase,
  uppercase, digit and special character, whichever subset of the checks fails.
\<close>

theorem sugestoes_em_ordem:
  "snd (verificar_forca_senha isalnum senha) =
     filter (pendente isalnum senha) todas_sugestoes"
  by (simp add: snd_verificar snd_pontuar todas_sugestoes_def)

theorem sugestoes_em_ordem_witness:
  "snd (verificar_forca_senha (ucd_isalnum fullwidth) (map of_char ''abc1'')) =
     [Pelo_Menos_8, Inclua_Maiuscula, Inclua_Especial]"
  using sugestoes_em_ordem [of "ucd_isalnum fullwidth" "map of_char ''abc1''"]
  by (simp add: todas_sugestoes_def contem_Cons contem_Nil classes_defs)

subsection \<open>Totality and determinism\<close>

text \<open>
  C9: for every string the function returns a pair of a level and a list of
  suggestions (no operation of its body can raise on a string: \<open>len\<close>, \<open>re.search\<close>
  with a constant valid pattern, \<open>append\<close>, integer arithmetic and comparisons, which is
  why the model's result type has no exception), the suggestions are taken from the six
  messages in their order, and a second call with the same string returns the same pair.
\<close>

theorem verificar_forca_senha_total:
  assumes "senha' = senha"
  shows "\<exists>nivel sugestoes.
           verificar_forca_senha isalnum senha = (nivel, sugestoes)
           \<and> verificar_forca_senha isalnum senha' = (nivel, sugestoes)
           \<and> subseq sugestoes todas_sugestoes"
proof -
  have "subseq (filter (pendente isalnum senha) todas_sugestoes) todas_sugestoes"
    by simp
  then have "subseq (snd (verificar_forca_senha isalnum senha)) todas_sugestoes"
    by (simp add: snd_verificar snd_pontuar todas_sugestoes_def)
  with assms show ?thesis
    by (cases "verificar_forca_senha isalnum senha") auto
qed

theorem verificar_forca_senha_total_witness:
  "\<exists>nivel sugestoes.
     verificar_forca_senha (ucd_isalnum fullwidth) senha_fullwidth = (nivel, sugestoes)
     \<and> subseq sugestoes todas_sugestoes"
  using verificar_forca_senha_total [of senha_fullwidth senha_fullwidth "ucd_isalnum fullwidth"]
  by auto

subsection \<open>Short passwords\<close>

text \<open>
  C10: every password of fewer than 8 characters has the level "Muito Fraca", whatever
  classes it has: its total is at most -5 + 1 + 1 + 1 + 2 = 0, below the threshold 2.
\<close>

theorem senha_curta_muito_fraca:
  assumes "length senha < 8"
  shows "fst (pontuar isalnum senha) \<le> 0
         \<and> fst (verificar_forca_senha isalnum senha) = Muito_Fraca"
  using assms by (simp add: fst_verificar fst_pontuar pontos_declarados_def calcular_nivel_def)

theorem senha_curta_muito_fraca_witness:
  "length (map of_char ''Ab1!xyz'' :: str) < 8
   \<and> fst (pontuar (ucd_isalnum fullwidth) (map of_char ''Ab1!xyz'')) \<le> 0
   \<and> fst (verificar_forca_senha (ucd_isalnum fullwidth) (map of_char ''Ab1!xyz''))
       = Muito_Fraca"
proof -
  have h: "length (map of_char ''Ab1!xyz'' :: str) < 8" by simp
  from senha_curta_muito_fraca [OF h] h show ?thesis by simp
qed

section \<open>The leak check: proofs\<close>

subsection \<open>The digest of "password"\<close>

lemma expandir_numeral:
  "expandir (numeral k) w =
     expandir (pred_numeral k)
       (w @ [rotl 1 (w ! (length w - 3) XOR w ! (length w - 8)
                     XOR w ! (length w - 14) XOR w ! (length w - 16))])"
  by (simp add: numeral_eq_Suc)

lemma preencher_password:
  "preencher [112, 97, 115, 115, 119, 111, 114, 100] =
     [112, 97, 115, 115, 119, 111, 114, 100, 128, 0, 0, 0, 0, 0, 0, 0,
      0, 0, 0, 0, 0, 0, 0, 0, 0, 0, 0, 0, 0, 0, 0, 0,
      0, 0, 0, 0, 0, 0, 0, 0, 0, 0, 0, 0, 0, 0, 0, 0,
      0, 0, 0, 0, 0, 0, 0, 0, 0, 0, 0, 0, 0, 0, 0, 64]"
  by code_simp

lemma palavras_password:
  "palavras [112, 97, 115, 115, 119, 111, 114, 100, 128, 0, 0, 0, 0, 0, 0, 0,
      0, 0, 0, 0, 0, 0, 0, 0, 0, 0, 0, 0, 0, 0, 0, 0,
      0, 0, 0, 0, 0, 0, 0, 0, 0, 0, 0, 0, 0, 0, 0, 0,
      0, 0, 0, 0, 0, 0, 0, 0, 0, 0, 0, 0, 0, 0, 0, 64] =
   [0x70617373, 0x776F7264, 0x80000000, 0, 0, 0, 0, 0, 0, 0, 0, 0, 0, 0, 0, 0x40]"
  by simp

lemma comprimir_password:
  "comprimir (0x67452301, 0xEFCDAB89, 0x98BADCFE, 0x10325476, 0xC3D2E1F0)
     [112, 97, 115, 115, 119, 111, 114, 100, 128, 0, 0, 0, 0, 0, 0, 0,
      0, 0, 0, 0, 0, 0, 0, 0, 0, 0, 0, 0, 0, 0, 0, 0,
      0, 0, 0, 0, 0, 0, 0, 0, 0, 0, 0, 0, 0, 0, 0, 0,
      0, 0, 0, 0, 0, 0, 0, 0, 0, 0, 0, 0, 0, 0, 0, 64] =
   (0x5BAA61E4, 0xC9B93F3F, 0x0682250B, 0x6CF8331B, 0x7EE68FD8)"
  unfolding comprimir_def palavras_password
  by (simp add: expandir_numeral rotl_def sha1_f_def sha1_k_def)

lemma sha1_password:
  "sha1 bytes_password =
     [0x5B, 0xAA, 0x61, 0xE4, 0xC9, 0xB9, 0x3F, 0x3F, 0x06, 0x82,
      0x25, 0x0B, 0x6C, 0xF8, 0x33, 0x1B, 0x7E, 0xE6, 0x8F, 0xD8]"
  unfolding sha1_def bytes_password_def preencher_password
  by (simp add: comprimir_password bytes_de_def)

lemma sha1_senha_password:
  "sha1_senha bytes_password = map of_char ''5BAA61E4C9B93F3F0682250B6CF8331B7EE68FD8''"
  by (simp add: sha1_senha_def sha1_password hexdigest_def hex_digito_def upper_def
        minuscula_def)

lemma encode_password: "encode_utf8 senha_password = Inr bytes_password"
  by (simp add: senha_password_eq bytes_password_def utf8_bytes_def surrogate_def)

text \<open>
  C3, as stated: the digest of "password" is the 39 characters
  \<open>5BAA61E4C9B93F3F0682250B6CF8331B7EE68FD\<close> and its suffix the 34 characters
  \<open>1E4C9B93F3F0682250B6CF8331B7EE68FD\<close>. The digest the code computes has 40 characters:
  the strings of the claim lack the last one, \<open>8\<close>.
\<close>

theorem digest_publicado_counterexample:
  "sha1_senha bytes_password \<noteq> map of_char ''5BAA61E4C9B93F3F0682250B6CF8331B7EE68FD''
   \<and> sufixo_hash (sha1_senha bytes_password)
       \<noteq> map of_char ''1E4C9B93F3F0682250B6CF8331B7EE68FD''"
  by (simp add: sha1_senha_password sufixo_hash_def)

text \<open>
  C3, amended: the uppercase hexadecimal SHA-1 digest the leak check computes for
  "password" is \<open>5BAA61E4C9B93F3F0682250B6CF8331B7EE68FD8\<close>, with the prefix \<open>5BAA6\<close> and
  the suffix \<open>1E4C9B93F3F0682250B6CF8331B7EE68FD8\<close>.
\<close>

theorem sha1_de_password:
  "encode_utf8 senha_password = Inr bytes_password
   \<and> sha1_senha bytes_password = map of_char ''5BAA61E4C9B93F3F0682250B6CF8331B7EE68FD8''
   \<and> prefixo_hash (sha1_senha bytes_password) = map of_char ''5BAA6''
   \<and> sufixo_hash (sha1_senha bytes_password)
       = map of_char ''1E4C9B93F3F0682250B6CF8331B7EE68FD8''"
  by (simp add: encode_password sha1_senha_password prefixo_hash_def sufixo_hash_def)

theorem sha1_de_password_witness:
  "length (sha1_senha bytes_password) = 40
   \<and> take 5 (sha1_senha bytes_password) = map of_char ''5BAA6''
   \<and> length (sufixo_hash (sha1_senha bytes_password)) = 35"
proof -
  from sha1_de_password have
    d: "sha1_senha bytes_password = map of_char ''5BAA61E4C9B93F3F0682250B6CF8331B7EE68FD8''"
    by simp
  show ?thesis unfolding d by (simp add: sufixo_hash_def)
qed

subsection \<open>The shape of the digest\<close>

lemma length_sha1: "length (sha1 m) = 20"
  by (simp add: sha1_def bytes_de_def split: prod.splits)

lemma length_hexdigest: "length (hexdigest bs) = 2 * length bs"
  by (induction bs) (simp_all add: hexdigest_def)

lemma length_sha1_senha: "length (sha1_senha bs) = 40"
  by (simp add: sha1_senha_def upper_def length_hexdigest length_sha1)

lemma hex_digito_upper:
  "n < 16 \<Longrightarrow> hex_maiusculo (if minuscula (hex_digito n) then hex_digito n - 32 else hex_digito n)"
  by (auto simp: hex_maiusculo_def hex_digito_def minuscula_def numero_def)

lemma unat_u8_div: "unat (b :: u8) div 16 < 16"
proof -
  have "unat b < 256" using unsigned_less [of b] by simp
  then show ?thesis by simp
qed

lemma hex_sha1_senha: "list_all hex_maiusculo (sha1_senha bs)"
proof -
  have "list_all hex_maiusculo (upper (hexdigest xs))" for xs
    by (induction xs) (simp_all add: hexdigest_def upper_def hex_digito_upper unat_u8_div)
  then show ?thesis by (simp add: sha1_senha_def)
qed

lemma encode_utf8_ok:
  "\<not> contem surrogate senha \<Longrightarrow> \<exists>bs. encode_utf8 senha = Inr bs"
  by (induction senha) (auto simp: contem_Cons contem_Nil)

lemma encode_utf8_surrogate:
  "contem surrogate senha \<Longrightarrow> encode_utf8 senha = Inl UnicodeEncodeError"
  by (induction senha) (auto simp: contem_Cons contem_Nil split: sum.splits)

text \<open>
  C7, as stated, for every password: a Python string may hold a lone surrogate (the
  standard input delivers one for a byte that is not UTF-8 when its error handler is
  \<open>surrogateescape\<close>), and for such a password the encoding raises \<open>UnicodeEncodeError\<close>
  before any digest is computed; the exception is not a \<open>RequestException\<close> and leaves
  the function. The input is the one-character string U+DCE9.
\<close>

theorem senha_com_surrogate_counterexample:
  "encode_utf8 [56553] = Inl UnicodeEncodeError
   \<and> verificar_vazamento_pwned interpretador_padrao (rede_responde 200 []) [56553]
       = (Inl UnicodeEncodeError, [])"
  by (simp add: verificar_vazamento_pwned_def corpo_try_def surrogate_def)

text \<open>
  C7, amended: for every password without a surrogate code point the UTF-8 encoding
  succeeds, and the uppercase hexadecimal SHA-1 digest of the bytes has 40 characters
  of \<open>0\<close>..\<open>9\<close>, \<open>A\<close>..\<open>F\<close>, split into a prefix of 5 and a suffix of 35 characters whose
  concatenation is the digest.
\<close>

theorem digest_prefixo_sufixo:
  assumes "\<not> contem surrogate senha"
  shows "\<exists>bs. encode_utf8 senha = Inr bs
           \<and> length (sha1_senha bs) = 40
           \<and> list_all hex_maiusculo (sha1_senha bs)
           \<and> length (prefixo_hash (sha1_senha bs)) = 5
           \<and> length (sufixo_hash (sha1_senha bs)) = 35
           \<and> prefixo_hash (sha1_senha bs) @ sufixo_hash (sha1_senha bs) = sha1_senha bs"
proof -
  from assms obtain bs where "encode_utf8 senha = Inr bs"
    using encode_utf8_ok by blast
  then show ?thesis
    by (simp add: prefixo_hash_def sufixo_hash_def length_sha1_senha hex_sha1_senha)
qed

theorem digest_prefixo_sufixo_witness:
  "\<not> contem surrogate senha_password
   \<and> (\<exists>bs. encode_utf8 senha_password = Inr bs
           \<and> length (sha1_senha bs) = 40
           \<and> list_all hex_maiusculo (sha1_senha bs)
           \<and> length (prefixo_hash (sha1_senha bs)) = 5
           \<and> length (sufixo_hash (sha1_senha bs)) = 35
           \<and> prefixo_hash (sha1_senha bs) @ sufixo_hash (sha1_senha bs) = sha1_senha bs)"
proof -
  have h: "\<not> contem surrogate senha_password"
    by (simp add: senha_password_eq contem_Cons contem_Nil surrogate_def)
  from digest_prefixo_sufixo [OF h] h show ?thesis by simp
qed

subsection \<open>Failures of the lookup\<close>

text \<open>The two failures the function handles: a status other than 200 and a
  \<open>RequestException\<close> both give \<open>(False, 0)\<close> and a warning.\<close>

lemma status_nao_200:
  assumes "encode_utf8 senha = Inr bs"
    and "requests_get (url_range @ prefixo_hash (sha1_senha bs)) = Inr r"
    and "status_code r \<noteq> 200"
  shows "verificar_vazamento_pwned ip requests_get senha = (Inr (False, 0), [Aviso_API (status_code r)])"
  using assms by (simp add: verificar_vazamento_pwned_def corpo_try_def)

lemma falha_de_conexao:
  assumes "encode_utf8 senha = Inr bs"
    and "requests_get (url_range @ prefixo_hash (sha1_senha bs)) = Inl RequestException"
  shows "verificar_vazamento_pwned ip requests_get senha = (Inr (False, 0), [Aviso_Conexao])"
  using assms by (simp add: verificar_vazamento_pwned_def corpo_try_def)


text \<open>
  C2: the function should never raise. It does on a 200 response whose body is not made
  of \<open>SUFFIX:COUNT\<close> lines, the page of a captive portal for instance: unpacking the
  pieces of the first line raises \<open>ValueError\<close>, which the \<open>except\<close> clause does not
  catch. Here the password is "password" and the body \<open><html></html>\<close>.
\<close>

theorem corpo_malformado_levanta_ValueError:
  "verificar_vazamento_pwned interpretador_padrao
     (rede_responde 200 (map of_char ''<html></html>'')) senha_password
   = (Inl ValueError, [])"
  by (simp add: verificar_vazamento_pwned_def corpo_try_def rede_responde_def
        senha_password_eq utf8_bytes_def surrogate_def quebra_de_linha_def)

subsection \<open>A well-formed body\<close>

lemma split_sem_sep: "list_all (\<lambda>c. c \<noteq> sep) s \<Longrightarrow> split sep s = [s]"
  by (induction s) auto

lemma split_par:
  "list_all (\<lambda>c. c \<noteq> sep) s \<Longrightarrow> list_all (\<lambda>c. c \<noteq> sep) n \<Longrightarrow> split sep (s @ [sep] @ n) = [s, n]"
  by (induction s) (auto simp: split_sem_sep)

lemma splitlines_sem_quebra:
  "l \<noteq> [] \<Longrightarrow> list_all (\<lambda>c. \<not> quebra_de_linha c) l \<Longrightarrow> splitlines l = [l]"
proof (induction l rule: splitlines.induct)
  case 1
  then show ?case by simp
next
  case (2 c)
  then show ?case by simp
next
  case (3 c d cs)
  then have "c \<noteq> 13" by (auto simp: quebra_de_linha_def)
  with 3 show ?case by simp
qed

lemma splitlines_sep:
  assumes "sep = [10] \<or> sep = [13, 10]"
  shows "splitlines (sep @ resto) = [] # splitlines resto"
  using assms by (cases resto) (auto simp: quebra_de_linha_def)

lemma splitlines_linha:
  assumes "sep = [10] \<or> sep = [13, 10]"
    and "list_all (\<lambda>c. \<not> quebra_de_linha c) l"
  shows "splitlines (l @ sep @ resto) = l # splitlines resto"
  using assms(2)
proof (induction l)
  case Nil
  then show ?case using splitlines_sep [OF assms(1)] by simp
next
  case (Cons c l)
  then have c: "\<not> quebra_de_linha c" "c \<noteq> 13" by (auto simp: quebra_de_linha_def)
  from assms(1) obtain d ds where t: "l @ sep @ resto = d # ds"
    by (cases "l @ sep @ resto") auto
  from Cons have ih: "splitlines (l @ sep @ resto) = l # splitlines resto" by simp
  have "splitlines (c # d # ds) = (c # l) # splitlines resto"
    using c ih t by simp
  then show ?case using t by simp
qed

lemma splitlines_juntar:
  assumes "sep = [10] \<or> sep = [13, 10]"
    and "list_all (\<lambda>l. l \<noteq> [] \<and> list_all (\<lambda>c. \<not> quebra_de_linha c) l) ls"
  shows "splitlines (juntar sep ls) = ls"
  using assms(2)
proof (induction ls rule: induct_list012)
  case 1
  then show ?case by simp
next
  case (2 l)
  then show ?case by (simp add: splitlines_sem_quebra)
next
  case (3 l m ls)
  then have "splitlines (juntar sep (m # ls)) = m # ls"
    and "list_all (\<lambda>c. \<not> quebra_de_linha c) l" by simp_all
  then show ?case using splitlines_linha [OF assms(1), of l "juntar sep (m # ls)"] by simp
qed

lemma numero_nao_espaco: "numero c \<Longrightarrow> \<not> espaco c"
  by (auto simp: numero_def espaco_def)

lemma strip_decimal: "decimal s \<Longrightarrow> strip s = s"
proof -
  assume d: "decimal s"
  then obtain c cs where s: "s = c # cs" "numero c" by (cases s) (auto simp: decimal_def)
  then have 1: "dropWhile espaco s = s" by (simp add: numero_nao_espaco)
  from d have "rev s \<noteq> []" "numero (hd (rev s))"
    by (auto simp: decimal_def hd_rev list_all_iff)
  then have 2: "dropWhile espaco (rev s) = rev s"
    by (cases "rev s") (auto simp: numero_nao_espaco)
  show ?thesis by (simp add: strip_def 1 2)
qed

lemma digitos_decimal:
  "decimal s \<Longrightarrow> digitos s = Some (map (\<lambda>c. c - 48) s)"
proof (induction s rule: digitos.induct)
  case 1
  then show ?case by (simp add: decimal_def)
next
  case (2 c)
  then show ?case by (simp add: decimal_def)
next
  case (3 c d cs)
  then have "numero c" "numero d" "decimal (d # cs)" by (auto simp: decimal_def)
  moreover from this have "d \<noteq> 95" by (auto simp: numero_def)
  ultimately show ?case using 3 by simp
qed

lemma valor_map: "int (valor (map (\<lambda>c. c - 48) s)) = valor_decimal s"
  by (simp add: valor_def valor_decimal_def foldl_map)

lemma int_ascii_decimal:
  assumes "decimal s" and "limite = 0 \<or> length s \<le> limite"
  shows "int_ascii limite s = Inr (valor_decimal s)"
proof -
  from assms(1) obtain c cs where s: "s = c # cs" "numero c"
    by (cases s) (auto simp: decimal_def)
  then have "c \<noteq> 45" "c \<noteq> 43" by (auto simp: numero_def)
  with s have sinal:
    "(case s of [] \<Rightarrow> (False, [])
      | c # cs \<Rightarrow> if c = 45 then (True, cs) else if c = 43 then (False, cs)
                  else (False, c # cs)) = (False, s)"
    by simp
  from assms(2) have "\<not> (0 < limite \<and> limite < length (map (\<lambda>c. c - 48) s))"
    by auto
  then show ?thesis
    unfolding int_ascii_def strip_decimal [OF assms(1)] sinal
    by (simp add: digitos_decimal [OF assms(1)] valor_map)
qed

lemma py_int_decimal:
  assumes "decimal s" and "max_str_digits ip = 0 \<or> length s \<le> max_str_digits ip"
  shows "py_int ip s = Inr (valor_decimal s)"
proof -
  from assms(1) have "list_all (\<lambda>c. c < 128) s"
    by (auto simp: decimal_def numero_def list_all_iff)
  then show ?thesis using assms by (simp add: py_int_def int_ascii_decimal)
qed

lemma split_linha_par:
  assumes "par_bem_formado limite p"
  shows "split 58 (linha_par p) = [fst p, snd p]"
proof -
  from assms have "list_all (\<lambda>c. c \<noteq> 58) (fst p)" "list_all (\<lambda>c. c \<noteq> 58) (snd p)"
    by (auto simp: par_bem_formado_def decimal_def numero_def list_all_iff)
  then show ?thesis unfolding linha_par_def by (rule split_par)
qed

lemma procurar_pares:
  assumes "list_all (par_bem_formado (max_str_digits ip)) pares"
  shows "procurar ip sufixo (map linha_par pares) =
           Inr (map_option (\<lambda>p. (True, valor_decimal (snd p))) (find (\<lambda>p. fst p = sufixo) pares))"
  using assms
proof (induction pares)
  case Nil
  then show ?case by simp
next
  case (Cons p pares)
  then have p: "par_bem_formado (max_str_digits ip) p" by simp
  then have "py_int ip (snd p) = Inr (valor_decimal (snd p))"
    by (intro py_int_decimal) (auto simp: par_bem_formado_def)
  with Cons split_linha_par [OF p] show ?case by simp
qed

lemma linhas_pares:
  assumes "list_all (par_bem_formado limite) pares"
  shows "list_all (\<lambda>l. l \<noteq> [] \<and> list_all (\<lambda>c. \<not> quebra_de_linha c) l) (map linha_par pares)"
proof -
  have "l \<noteq> [] \<and> list_all (\<lambda>c. \<not> quebra_de_linha c) l"
    if "par_bem_formado limite p" "l = linha_par p" for p l
    using that
    by (auto simp: par_bem_formado_def linha_par_def decimal_def list_all_iff numero_def
          quebra_de_linha_def)
  with assms show ?thesis by (auto simp: list_all_iff)
qed

text \<open>
  C5: when the password can be encoded and the lookup answers 200 with a body of
  newline-separated \<open>SUFFIX:COUNT\<close> pairs, the function raises nothing, prints nothing
  and returns \<open>True\<close> with the decimal value of the count of the first pair whose suffix
  is the computed suffix, and \<open>(False, 0)\<close> when no pair has that suffix.
\<close>

theorem vazamento_encontrado_ou_nao:
  assumes "encode_utf8 senha = Inr bs"
    and "requests_get (url_range @ prefixo_hash (sha1_senha bs)) = Inr r"
    and "status_code r = 200"
    and "text_str r = juntar sep (map linha_par pares)"
    and "sep = [10] \<or> sep = [13, 10]"
    and "list_all (par_bem_formado (max_str_digits ip)) pares"
  shows "verificar_vazamento_pwned ip requests_get senha =
           (Inr (resultado_declarado (sufixo_hash (sha1_senha bs)) pares), [])"
proof -
  have "splitlines (text_str r) = map linha_par pares"
    using assms(4) splitlines_juntar [OF assms(5) linhas_pares [OF assms(6)]] by simp
  then show ?thesis
    using assms(1-3) procurar_pares [OF assms(6)]
    by (simp add: verificar_vazamento_pwned_def corpo_try_def resultado_declarado_def
          split: option.splits)
qed

theorem vazamento_encontrado_ou_nao_witness:
  "verificar_vazamento_pwned interpretador_padrao
     (rede_responde 200 (juntar [13, 10] (map linha_par pares_com_password))) senha_password
   = (Inr (True, 3730471), [])
   \<and> verificar_vazamento_pwned interpretador_padrao
       (rede_responde 200 (juntar [13, 10] (map linha_par pares_sem_password))) senha_password
     = (Inr (False, 0), [])"
proof -
  have bf: "list_all (par_bem_formado (max_str_digits interpretador_padrao)) pares_com_password"
    "list_all (par_bem_formado (max_str_digits interpretador_padrao)) pares_sem_password"
    by (simp_all add: par_bem_formado_def pares_com_password_def pares_sem_password_def
          decimal_def numero_def quebra_de_linha_def interpretador_padrao_def)
  have a: "verificar_vazamento_pwned interpretador_padrao
       (rede_responde 200 (juntar [13, 10] (map linha_par pares))) senha_password
     = (Inr (resultado_declarado (sufixo_hash (sha1_senha bytes_password)) pares), [])"
    if "list_all (par_bem_formado (max_str_digits interpretador_padrao)) pares" for pares
    using that
    by (intro vazamento_encontrado_ou_nao
          [where r = "\<lparr>status_code = 200,
                          text_str = juntar [13, 10] (map linha_par pares)\<rparr>"
             and sep = "[13, 10]", OF encode_password])
       (simp_all add: rede_responde_def)
  have s: "sufixo_hash (sha1_senha bytes_password)
             = map of_char ''1E4C9B93F3F0682250B6CF8331B7EE68FD8''"
    by (simp add: sha1_senha_password sufixo_hash_def)
  show ?thesis
    unfolding a [OF bf(1)] a [OF bf(2)] s
    by (simp add: resultado_declarado_def pares_com_password_def pares_sem_password_def
          valor_decimal_def)
qed

end
